theory Spec2Isabelle
  imports Complex_Main
begin

section \<open>Data model of \<open>main.go\<close>\<close>

text \<open>
  Go's \<open>float64\<close>. The handlers never compute with coordinates, they only compare them
  with the constants \<open>-180\<close>, \<open>180\<close>, \<open>-90\<close> and \<open>90\<close>, so a value is either a finite
  number (every finite double is a real number), one of the two infinities, or NaN.
  \<open>float_lt\<close> is Go's \<open><\<close> on \<open>float64\<close> (IEEE 754): every comparison with NaN is
  false. Go's \<open>a > b\<close> is \<open>float_gt a b\<close>.
\<close>

datatype float64 = Finite real | PosInf | NegInf | NaN

fun float_lt :: "float64 \<Rightarrow> float64 \<Rightarrow> bool" where
  "float_lt NaN b = False"
| "float_lt a NaN = False"
| "float_lt (Finite x) (Finite y) = (x < y)"
| "float_lt (Finite x) PosInf = True"
| "float_lt (Finite x) NegInf = False"
| "float_lt PosInf b = False"
| "float_lt NegInf (Finite y) = True"
| "float_lt NegInf PosInf = True"
| "float_lt NegInf NegInf = False"

definition float_gt :: "float64 \<Rightarrow> float64 \<Rightarrow> bool" where
  "float_gt a b = float_lt b a"

text \<open>
  \<open>type Coords struct { Latitude, Longitude float64 }\<close>
\<close>

record Coords =
  Latitude :: float64
  Longitude :: float64

text \<open>
  \<open>type Image struct { ID, URI string; Width, Height int }\<close>. The record fields carry
  the prefix \<open>Image_\<close> because \<open>Marker\<close> has a field \<open>ID\<close> too. \<open>Width\<close> and
  \<open>Height\<close> are only compared with zero, never computed with, so Go's \<open>int\<close> is
  modelled by \<open>int\<close>.
\<close>

record Image =
  Image_ID :: string
  Image_URI :: string
  Image_Width :: int
  Image_Height :: int

text \<open>
  \<open>type Marker struct { ID, Name string; Location Coords; Images []Image }\<close>. A Go slice
  can be \<open>nil\<close>, which is not the same value as the empty slice \<open>[]Image{}\<close>: \<open>None\<close> is
  the nil slice, \<open>Some xs\<close> a non-nil slice with the elements \<open>xs\<close>.
\<close>

record Marker =
  ID :: string
  Name :: string
  Location :: Coords
  Images :: "Image list option"

section \<open>Normalisation and validation\<close>

text \<open>
  \<open>func (m Marker) Normalize() Marker\<close>: the receiver is a copy, whose \<open>Images\<close> field is
  set to the empty slice when it is nil.
\<close>

definition Normalize :: "Marker \<Rightarrow> Marker" where
  "Normalize m = (if Images m = None then m\<lparr>Images := Some []\<rparr> else m)"

text \<open>
  The validation methods return Go's \<open>error\<close>. Each error here is built by \<open>fmt.Errorf\<close>
  and is represented by its message; \<open>None\<close> is the \<open>nil\<close> error.
\<close>

definition Coords_Validate :: "Coords \<Rightarrow> string option" where
  "Coords_Validate c =
     (if float_lt (Latitude c) (Finite (- 180)) \<or> float_gt (Latitude c) (Finite 180)
      then Some ''invalid latitude''
      else if float_lt (Longitude c) (Finite (- 90)) \<or> float_gt (Longitude c) (Finite 90)
      then Some ''invalid longitude''
      else None)"

definition Image_Validate :: "Image \<Rightarrow> string option" where
  "Image_Validate i =
     (if Image_ID i = [] then Some ''empty id''
      else if Image_URI i = [] then Some ''empty uri''
      else if Image_Width i \<le> 0 \<or> Image_Height i \<le> 0 then Some ''invalid dimensions''
      else None)"

text \<open>
  The loop \<open>for _, image := range m.Images\<close> of \<open>Marker.Validate\<close>: it returns at the
  first image whose validation fails, with \<open>fmt.Errorf("invalid image %s: %w", image.ID, err)\<close>.
\<close>

fun validate_images :: "Image list \<Rightarrow> string option" where
  "validate_images [] = None"
| "validate_images (img # rest) =
     (case Image_Validate img of
        Some err \<Rightarrow> Some (''invalid image '' @ Image_ID img @ '': '' @ err)
      | None \<Rightarrow> validate_images rest)"

text \<open>Ranging over a nil slice runs the loop body zero times.\<close>

definition range_of :: "'a list option \<Rightarrow> 'a list" where
  "range_of s = (case s of None \<Rightarrow> [] | Some xs \<Rightarrow> xs)"

definition Marker_Validate :: "Marker \<Rightarrow> string option" where
  "Marker_Validate m =
     (if ID m = [] then Some ''empty id''
      else if Name m = [] then Some ''empty name''
      else case Coords_Validate (Location m) of
        Some err \<Rightarrow> Some (''invalid location: '' @ err)
      | None \<Rightarrow> validate_images (range_of (Images m)))"

section \<open>Errors and responses\<close>

text \<open>
  The errors the MongoDB driver returns to the handlers. A \<open>mongo.WriteException\<close> carries
  the server's error codes, and \<open>HasErrorCode\<close> tells whether a given code is among them;
  \<open>DriverError\<close> is any other error of the driver (connection lost, context cancelled,
  decoding failed), with its message.
\<close>

datatype store_error = WriteException "int list" | DriverError string

definition HasErrorCode :: "int list \<Rightarrow> int \<Rightarrow> bool" where
  "HasErrorCode codes code = (code \<in> set codes)"

text \<open>
  \<open>errors.As(err, &mongoErr) && mongoErr.HasErrorCode(11000)\<close>, the test of the POST
  handler for a duplicate key.
\<close>

definition is_duplicate_key :: "store_error \<Rightarrow> bool" where
  "is_duplicate_key err =
     (case err of WriteException codes \<Rightarrow> HasErrorCode codes 11000 | DriverError msg \<Rightarrow> False)"

text \<open>
  The values of Go's \<open>error\<close> that reach a response: an error of \<open>fmt.Errorf\<close> (from
  validation), the error of \<open>c.Bind\<close>, or an error of the store.
\<close>

datatype go_error = Errorf string | BindError string | StoreError store_error

text \<open>
  What a handler returns: \<open>c.JSON(status, body)\<close> or \<open>c.NoContent(status)\<close>. The body is
  \<open>Error{err}\<close>, \<open>ErrorString{s}\<close> or the slice \<open>results\<close> of the GET handler, which
  encodes as JSON \<open>null\<close> when it is nil (\<open>None\<close>) and as an array otherwise.
\<close>

datatype payload = Error go_error | ErrorString string | Markers "Marker list option"

datatype response = JSON nat payload | NoContent nat

definition StatusOK :: nat where "StatusOK = 200"
definition StatusCreated :: nat where "StatusCreated = 201"
definition StatusBadRequest :: nat where "StatusBadRequest = 400"
definition StatusServiceUnavailable :: nat where "StatusServiceUnavailable = 503"

section \<open>The document store\<close>

text \<open>
  Modelled from the spec: the Document Store, MongoDB's collection \<open>markers\<close>, which the
  handlers reach through the driver and which is no code of this repository. The spec
  (External Interfaces) gives it four operations: find-all, insert-one with the id as
  primary key (uniqueness enforced), delete-by-id and replace-by-id. The state is the
  list of documents in the store's order, and the list of calls the handlers have issued,
  so that a theorem can say which calls a request made. Every operation takes \<open>fault\<close>:
  \<open>Some err\<close> when the driver fails with \<open>err\<close> in this call (the documents then stay as
  they are), \<open>None\<close> when it does not.
\<close>

datatype store_call =
  CallFind | CallInsertOne Marker | CallDeleteOne string | CallReplaceOne string Marker

record db =
  docs :: "Marker list"
  calls :: "store_call list"

definition issue :: "store_call \<Rightarrow> db \<Rightarrow> db" where
  "issue call s = s\<lparr>calls := calls s @ [call]\<rparr>"

text \<open>\<open>Find(ctx, bson.D{})\<close>: a cursor over all documents, or the driver's error.\<close>

definition Find :: "store_error option \<Rightarrow> db \<Rightarrow> (store_error + Marker list) \<times> db" where
  "Find fault s =
     (case fault of
        Some err \<Rightarrow> (Inl err, issue CallFind s)
      | None \<Rightarrow> (Inr (docs s), issue CallFind s))"

text \<open>
  \<open>cursor.All(ctx, &results)\<close>: on success \<open>results\<close> is resliced to the documents of
  the cursor, so a non-nil slice stays non-nil also when there is no document, and a nil
  slice stays nil then.
\<close>

definition cursor_All ::
  "store_error option \<Rightarrow> Marker list \<Rightarrow> Marker list option \<Rightarrow> store_error + Marker list option"
where
  "cursor_All fault cursor results =
     (case fault of
        Some err \<Rightarrow> Inl err
      | None \<Rightarrow>
          Inr (case results of
                 None \<Rightarrow> (if cursor = [] then None else Some cursor)
               | Some old \<Rightarrow> Some cursor))"

text \<open>
  \<open>InsertOne(ctx, doc)\<close>: the field \<open>ID\<close> is the document's \<open>_id\<close> (\<open>bson:"_id"\<close>), the
  primary key; an id that is already there is refused with the server's code 11000.
\<close>

definition InsertOne :: "store_error option \<Rightarrow> Marker \<Rightarrow> db \<Rightarrow> store_error option \<times> db" where
  "InsertOne fault doc s =
     (case fault of
        Some err \<Rightarrow> (Some err, issue (CallInsertOne doc) s)
      | None \<Rightarrow>
          if ID doc \<in> set (map ID (docs s))
          then (Some (WriteException [11000]), issue (CallInsertOne doc) s)
          else (None, issue (CallInsertOne doc) (s\<lparr>docs := docs s @ [doc]\<rparr>)))"

text \<open>
  \<open>DeleteOne(ctx, bson.M{"_id": id})\<close> removes the first document with that id, and is
  no error when there is none.
\<close>

fun delete_first :: "string \<Rightarrow> Marker list \<Rightarrow> Marker list" where
  "delete_first k [] = []"
| "delete_first k (d # ds) = (if ID d = k then ds else d # delete_first k ds)"

definition DeleteOne :: "store_error option \<Rightarrow> string \<Rightarrow> db \<Rightarrow> store_error option \<times> db" where
  "DeleteOne fault k s =
     (case fault of
        Some err \<Rightarrow> (Some err, issue (CallDeleteOne k) s)
      | None \<Rightarrow> (None, issue (CallDeleteOne k) (s\<lparr>docs := delete_first k (docs s)\<rparr>)))"

text \<open>
  \<open>ReplaceOne(ctx, bson.M{"_id": id}, doc)\<close> replaces the first document with that id by
  \<open>doc\<close>, and is no error when there is none (no upsert is asked for).
\<close>

fun replace_first :: "string \<Rightarrow> Marker \<Rightarrow> Marker list \<Rightarrow> Marker list" where
  "replace_first k doc [] = []"
| "replace_first k doc (d # ds) = (if ID d = k then doc # ds else d # replace_first k doc ds)"

definition ReplaceOne ::
  "store_error option \<Rightarrow> string \<Rightarrow> Marker \<Rightarrow> db \<Rightarrow> store_error option \<times> db"
where
  "ReplaceOne fault k doc s =
     (case fault of
        Some err \<Rightarrow> (Some err, issue (CallReplaceOne k doc) s)
      | None \<Rightarrow> (None, issue (CallReplaceOne k doc) (s\<lparr>docs := replace_first k doc (docs s)\<rparr>)))"

section \<open>The handlers of \<open>/api/v1/markers\<close>\<close>

text \<open>
  Each handler is the function literal registered in \<open>main\<close>. A request gives a handler
  the outcome of \<open>c.Bind(&body)\<close> (\<open>Inl\<close> the bind error's message, \<open>Inr\<close> the decoded
  \<open>Marker\<close>) and the path parameter \<open>id\<close>; the store gives it the \<open>fault\<close> of the call it
  makes. A handler returns its response and the store after it. The log calls
  (\<open>c.Logger()\<close>), the middleware and the encoding of a response body by the framework are
  not modelled.
\<close>

definition GET_handler :: "store_error option \<Rightarrow> store_error option \<Rightarrow> db \<Rightarrow> response \<times> db" where
  "GET_handler find_fault all_fault s =
     (case Find find_fault s of
        (Inl err, s') \<Rightarrow> (JSON StatusServiceUnavailable (Error (StoreError err)), s')
      | (Inr cursor, s') \<Rightarrow>
          (case cursor_All all_fault cursor (Some []) of
             Inl err \<Rightarrow> (JSON StatusServiceUnavailable (Error (StoreError err)), s')
           | Inr results \<Rightarrow> (JSON StatusOK (Markers results), s')))"

definition POST_handler :: "string + Marker \<Rightarrow> store_error option \<Rightarrow> db \<Rightarrow> response \<times> db" where
  "POST_handler bound fault s =
     (case bound of
        Inl err \<Rightarrow> (JSON StatusBadRequest (Error (BindError err)), s)
      | Inr body \<Rightarrow>
          (case Marker_Validate body of
             Some err \<Rightarrow> (JSON StatusBadRequest (Error (Errorf err)), s)
           | None \<Rightarrow>
               (case InsertOne fault (Normalize body) s of
                  (Some err, s') \<Rightarrow>
                    if is_duplicate_key err
                    then (JSON StatusBadRequest (ErrorString ''duplicated id''), s')
                    else (JSON StatusServiceUnavailable (Error (StoreError err)), s')
                | (None, s') \<Rightarrow> (NoContent StatusCreated, s'))))"

definition DELETE_handler :: "string \<Rightarrow> store_error option \<Rightarrow> db \<Rightarrow> response \<times> db" where
  "DELETE_handler id' fault s =
     (case DeleteOne fault id' s of
        (Some err, s') \<Rightarrow> (JSON StatusServiceUnavailable (Error (StoreError err)), s')
      | (None, s') \<Rightarrow> (NoContent StatusOK, s'))"

definition PUT_handler ::
  "string + Marker \<Rightarrow> string \<Rightarrow> store_error option \<Rightarrow> db \<Rightarrow> response \<times> db"
where
  "PUT_handler bound id' fault s =
     (case bound of
        Inl err \<Rightarrow> (JSON StatusBadRequest (Error (BindError err)), s)
      | Inr body \<Rightarrow>
          if ID body \<noteq> id'
          then (JSON StatusBadRequest (ErrorString ''id in path and body doesn't match''), s)
          else
            (case Marker_Validate body of
               Some err \<Rightarrow> (JSON StatusBadRequest (Error (Errorf err)), s)
             | None \<Rightarrow>
                 (case ReplaceOne fault id' (Normalize body) s of
                    (Some err, s') \<Rightarrow> (JSON StatusServiceUnavailable (Error (StoreError err)), s')
                  | (None, s') \<Rightarrow> (NoContent StatusOK, s'))))"

section \<open>Reference predicates and example values\<close>

text \<open>
  The ranges of the data model, in the spec's words: \<open>x\<close> lies within \<open>[lo, hi]\<close>. An
  infinity or NaN is within no range.
\<close>

definition in_range :: "real \<Rightarrow> real \<Rightarrow> float64 \<Rightarrow> bool" where
  "in_range lo hi x =
     (case x of Finite r \<Rightarrow> lo \<le> r \<and> r \<le> hi | PosInf \<Rightarrow> False | NegInf \<Rightarrow> False | NaN \<Rightarrow> False)"

text \<open>
  The spec's rule for an image: \<open>id\<close> non-empty, \<open>uri\<close> non-empty, \<open>width > 0\<close> and
  \<open>height > 0\<close>.
\<close>

definition image_ok :: "Image \<Rightarrow> bool" where
  "image_ok i =
     (Image_ID i \<noteq> [] \<and> Image_URI i \<noteq> [] \<and> 0 < Image_Width i \<and> 0 < Image_Height i)"

text \<open>Concrete requests and stores, for the instances below.\<close>

definition origin :: Coords where
  "origin = \<lparr>Latitude = Finite 0, Longitude = Finite 0\<rparr>"

definition marker_old :: Marker where
  "marker_old = \<lparr>ID = ''a'', Name = ''old'', Location = origin, Images = Some []\<rparr>"

definition marker_new :: Marker where
  "marker_new = \<lparr>ID = ''a'', Name = ''new'', Location = origin, Images = None\<rparr>"

definition marker_bad :: Marker where
  "marker_bad = \<lparr>ID = ''b'', Name = [], Location = origin, Images = None\<rparr>"

definition image_1 :: Image where
  "image_1 =
     \<lparr>Image_ID = ''i'', Image_URI = ''http://x/1.png'', Image_Width = 10, Image_Height = 20\<rparr>"

definition image_2 :: Image where
  "image_2 =
     \<lparr>Image_ID = ''i'', Image_URI = ''http://x/2.png'', Image_Width = 30, Image_Height = 40\<rparr>"

definition image_flat :: Image where
  "image_flat =
     \<lparr>Image_ID = ''j'', Image_URI = ''http://x/3.png'', Image_Width = 0, Image_Height = 40\<rparr>"

definition marker_twins :: Marker where
  "marker_twins =
     \<lparr>ID = ''a'', Name = ''twins'', Location = origin, Images = Some [image_1, image_2]\<rparr>"

definition marker_nan :: Marker where
  "marker_nan =
     \<lparr>ID = ''n'', Name = ''nowhere'',
      Location = \<lparr>Latitude = NaN, Longitude = Finite 0\<rparr>, Images = None\<rparr>"

definition db_empty :: db where
  "db_empty = \<lparr>docs = [], calls = []\<rparr>"

definition db_old :: db where
  "db_old = \<lparr>docs = [marker_old], calls = []\<rparr>"

section \<open>Basic facts\<close>

lemmas status_defs =
  StatusOK_def StatusCreated_def StatusBadRequest_def StatusServiceUnavailable_def

lemmas example_defs =
  origin_def marker_old_def marker_new_def marker_bad_def image_1_def image_2_def
  image_flat_def marker_twins_def marker_nan_def db_empty_def db_old_def

lemmas validate_defs =
  Marker_Validate_def Coords_Validate_def Image_Validate_def float_gt_def range_of_def


lemma Image_Validate_None: "(Image_Validate i = None) = image_ok i"
  by (auto simp: Image_Validate_def image_ok_def)

lemma validate_images_find:
  "validate_images xs =
     (case List.find (\<lambda>i. \<not> image_ok i) xs of
        None \<Rightarrow> None
      | Some i \<Rightarrow> Some (''invalid image '' @ Image_ID i @ '': '' @
           (if Image_ID i = [] then ''empty id''
            else if Image_URI i = [] then ''empty uri'' else ''invalid dimensions'')))"
  by (induction xs) (auto simp: Image_Validate_def image_ok_def)

lemma validate_images_None: "(validate_images xs = None) = list_all image_ok xs"
  by (induction xs) (auto simp: Image_Validate_None [symmetric] split: option.splits)


lemma POST_accepted:
  "fst (POST_handler (Inr m) fault s) = NoContent code \<Longrightarrow> Marker_Validate m = None"
  by (auto simp: POST_handler_def split: option.splits prod.splits if_splits)

lemma PUT_accepted:
  "fst (PUT_handler (Inr m) id' fault s) = NoContent code \<Longrightarrow> Marker_Validate m = None"
  by (auto simp: PUT_handler_def split: option.splits prod.splits if_splits)


lemma delete_first_absent: "k \<notin> set (map ID ds) \<Longrightarrow> delete_first k ds = ds"
  by (induction ds) auto

text \<open>
  Away from NaN, \<open>Coords.Validate\<close> accepts exactly the pairs within the two ranges.
\<close>

lemma Coords_Validate_iff_no_NaN:
  assumes "Latitude c \<noteq> NaN" and "Longitude c \<noteq> NaN"
  shows "(Coords_Validate c = None) =
           (in_range (- 180) 180 (Latitude c) \<and> in_range (- 90) 90 (Longitude c))"
  using assms
  by (cases "Latitude c"; cases "Longitude c")
     (auto simp: Coords_Validate_def in_range_def float_gt_def)

text \<open>A NaN in one coordinate does not keep the check of the other one from failing.\<close>

lemma Coords_Validate_NaN_and_out_of_range:
  "Coords_Validate \<lparr>Latitude = NaN, Longitude = Finite 200\<rparr> = Some ''invalid longitude''"
  by (simp add: Coords_Validate_def float_gt_def)

section \<open>Create followed by List\<close>




section \<open>Coordinates\<close>

text \<open>
  Claim C2. The claim is that \<open>Coords.Validate\<close> succeeds exactly for a latitude within
  \<open>[-180, 180]\<close> and a longitude within \<open>[-90, 90]\<close>. The code rejects by the tests
  \<open>Latitude < -180 || Latitude > 180\<close>, which are both false for NaN: the pair with the
  latitude NaN and the longitude 0 is accepted although NaN is within no range, and
  Create stores a marker at such a place.
\<close>

theorem Coords_Validate_accepts_NaN:
  "Coords_Validate \<lparr>Latitude = NaN, Longitude = Finite 0\<rparr> = None
   \<and> \<not> in_range (- 180) 180 NaN
   \<and> POST_handler (Inr marker_nan) None db_empty =
       (NoContent 201,
        \<lparr>docs = [marker_nan\<lparr>Images := Some []\<rparr>],
         calls = [CallInsertOne (marker_nan\<lparr>Images := Some []\<rparr>)]\<rparr>)"
  by (simp add: validate_defs example_defs in_range_def POST_handler_def InsertOne_def
      issue_def status_defs Normalize_def)

text \<open>
  Claim C10. There are coordinates with a NaN that pass \<open>Coords.Validate\<close>, and markers
  at such coordinates that pass \<open>Marker.Validate\<close>, although NaN lies in neither range:
  both comparisons of a NaN coordinate are false, so its own check never fails, and the
  pair passes when the other coordinate is NaN too or passes its check.
\<close>

theorem NaN_passes_validation:
  "(\<exists>c. (Latitude c = NaN \<or> Longitude c = NaN) \<and> Coords_Validate c = None)
   \<and> (\<exists>m. (Latitude (Location m) = NaN \<or> Longitude (Location m) = NaN)
          \<and> Marker_Validate m = None)
   \<and> \<not> float_lt NaN lo \<and> \<not> float_gt NaN hi
   \<and> \<not> in_range (- 180) 180 NaN \<and> \<not> in_range (- 90) 90 NaN
   \<and> Coords_Validate \<lparr>Latitude = NaN, Longitude = NaN\<rparr> = None
   \<and> Coords_Validate \<lparr>Latitude = NaN, Longitude = lon\<rparr> =
       (if float_lt lon (Finite (- 90)) \<or> float_gt lon (Finite 90)
        then Some ''invalid longitude'' else None)
   \<and> Coords_Validate \<lparr>Latitude = lat, Longitude = NaN\<rparr> =
       (if float_lt lat (Finite (- 180)) \<or> float_gt lat (Finite 180)
        then Some ''invalid latitude'' else None)
   \<and> Marker_Validate marker_nan = None"
proof -
  have c: "Coords_Validate \<lparr>Latitude = NaN, Longitude = NaN\<rparr> = None"
    by (simp add: Coords_Validate_def float_gt_def)
  have m: "Marker_Validate marker_nan = None"
    by (simp add: validate_defs marker_nan_def)
  have ec: "\<exists>c. (Latitude c = NaN \<or> Longitude c = NaN) \<and> Coords_Validate c = None"
    using c by (intro exI [of _ "\<lparr>Latitude = NaN, Longitude = NaN\<rparr>"]) simp
  have em: "\<exists>m. (Latitude (Location m) = NaN \<or> Longitude (Location m) = NaN)
      \<and> Marker_Validate m = None"
    using m by (intro exI [of _ marker_nan]) (simp add: marker_nan_def)
  have r: "\<not> float_lt NaN lo \<and> \<not> float_gt NaN hi
      \<and> \<not> in_range (- 180) 180 NaN \<and> \<not> in_range (- 90) 90 NaN"
    by (cases hi) (simp_all add: float_gt_def in_range_def)
  have lo: "Coords_Validate \<lparr>Latitude = NaN, Longitude = lon\<rparr> =
       (if float_lt lon (Finite (- 90)) \<or> float_gt lon (Finite 90)
        then Some ''invalid longitude'' else None)"
    by (simp add: Coords_Validate_def float_gt_def)
  have la: "Coords_Validate \<lparr>Latitude = lat, Longitude = NaN\<rparr> =
       (if float_lt lat (Finite (- 180)) \<or> float_gt lat (Finite 180)
        then Some ''invalid latitude'' else None)"
    by (simp add: Coords_Validate_def float_gt_def)
  from ec em r c lo la m show ?thesis by blast
qed

section \<open>The order of validation\<close>

text \<open>
  Claim C3. \<open>Marker.Validate\<close> checks in this order: the id is non-empty, the name is
  non-empty, the location passes \<open>Coords.Validate\<close>, then the images in the order of the
  sequence; the error is that of the first check that fails. For the images it is the
  error of the first image (\<open>List.find\<close>) that breaks the rule of an image (id non-empty,
  uri non-empty, width and height above zero, checked in this order), and its message
  holds that image's id. An image passes \<open>Image.Validate\<close> exactly when it keeps the rule,
  and a marker passes exactly when none of the checks fails.
\<close>

theorem Marker_Validate_order:
  "Marker_Validate m =
     (if ID m = [] then Some ''empty id''
      else if Name m = [] then Some ''empty name''
      else if Coords_Validate (Location m) \<noteq> None
        then Some (''invalid location: '' @ the (Coords_Validate (Location m)))
      else case List.find (\<lambda>i. \<not> image_ok i) (range_of (Images m)) of
        None \<Rightarrow> None
      | Some i \<Rightarrow> Some (''invalid image '' @ Image_ID i @ '': '' @
           (if Image_ID i = [] then ''empty id''
            else if Image_URI i = [] then ''empty uri'' else ''invalid dimensions'')))
   \<and> (Image_Validate i = None) = image_ok i
   \<and> (Marker_Validate m = None) =
       (ID m \<noteq> [] \<and> Name m \<noteq> [] \<and> Coords_Validate (Location m) = None
        \<and> list_all image_ok (range_of (Images m)))"
proof -
  have accepted: "(Marker_Validate m = None) =
       (ID m \<noteq> [] \<and> Name m \<noteq> [] \<and> Coords_Validate (Location m) = None
        \<and> list_all image_ok (range_of (Images m)))"
    by (auto simp: Marker_Validate_def validate_images_None split: option.splits)
  have first_failure: "Marker_Validate m =
     (if ID m = [] then Some ''empty id''
      else if Name m = [] then Some ''empty name''
      else if Coords_Validate (Location m) \<noteq> None
        then Some (''invalid location: '' @ the (Coords_Validate (Location m)))
      else case List.find (\<lambda>i. \<not> image_ok i) (range_of (Images m)) of
        None \<Rightarrow> None
      | Some i \<Rightarrow> Some (''invalid image '' @ Image_ID i @ '': '' @
           (if Image_ID i = [] then ''empty id''
            else if Image_URI i = [] then ''empty uri'' else ''invalid dimensions'')))"
    by (auto simp: Marker_Validate_def validate_images_find split: option.splits)
  from first_failure accepted Image_Validate_None [of i] show ?thesis
    by blast
qed

text \<open>
  Two markers that break several rules at once: the first check that fails gives the
  error, and of two bad images the earlier one.
\<close>

lemma Marker_Validate_examples:
  "Marker_Validate \<lparr>ID = [], Name = [], Location = \<lparr>Latitude = Finite 200, Longitude = NaN\<rparr>,
                     Images = Some [image_flat]\<rparr> = Some ''empty id''
   \<and> Marker_Validate \<lparr>ID = ''m'', Name = ''n'', Location = origin,
                       Images = Some [image_1, image_flat, image_1\<lparr>Image_URI := []\<rparr>]\<rparr>
       = Some ''invalid image j: invalid dimensions''"
  by (simp add: validate_defs example_defs)

section \<open>Create: errors of the store\<close>

text \<open>
  Claim C4. When a Create request has passed validation and the insert returns an error:
  if the error is a write exception with the code 11000 (the store's report of a
  duplicate id), the response is 400 with the message \<open>duplicated id\<close>; for every other
  error it is 503 with the error.
\<close>

theorem Create_store_error:
  assumes "Marker_Validate body = None"
    and "fst (InsertOne fault (Normalize body) s) = Some err"
  shows "fst (POST_handler (Inr body) fault s) =
           (if is_duplicate_key err then JSON 400 (ErrorString ''duplicated id'')
            else JSON 503 (Error (StoreError err)))
         \<and> is_duplicate_key err = (\<exists>codes. err = WriteException codes \<and> 11000 \<in> set codes)"
  using assms
  by (cases "InsertOne fault (Normalize body) s"; cases err)
     (auto simp: POST_handler_def status_defs is_duplicate_key_def HasErrorCode_def)

theorem Create_store_error_witness:
  "Marker_Validate marker_new = None
   \<and> fst (InsertOne None (Normalize marker_new) db_old) = Some (WriteException [11000])
   \<and> fst (POST_handler (Inr marker_new) None db_old) = JSON 400 (ErrorString ''duplicated id'')
   \<and> fst (InsertOne (Some (DriverError ''timeout'')) (Normalize marker_new) db_old) =
       Some (DriverError ''timeout'')
   \<and> fst (POST_handler (Inr marker_new) (Some (DriverError ''timeout'')) db_old) =
       JSON 503 (Error (StoreError (DriverError ''timeout'')))"
proof -
  have v: "Marker_Validate marker_new = None"
    by (simp add: validate_defs example_defs)
  have d: "fst (InsertOne None (Normalize marker_new) db_old) = Some (WriteException [11000])"
    by (simp add: InsertOne_def Normalize_def example_defs)
  have e: "fst (InsertOne (Some (DriverError ''timeout'')) (Normalize marker_new) db_old) =
      Some (DriverError ''timeout'')"
    by (simp add: InsertOne_def)
  from Create_store_error [OF v d, THEN conjunct1]
  have r1: "fst (POST_handler (Inr marker_new) None db_old) =
      JSON 400 (ErrorString ''duplicated id'')"
    by (simp add: is_duplicate_key_def HasErrorCode_def)
  from Create_store_error [OF v e, THEN conjunct1]
  have r2: "fst (POST_handler (Inr marker_new) (Some (DriverError ''timeout'')) db_old) =
       JSON 503 (Error (StoreError (DriverError ''timeout'')))"
    by (simp add: is_duplicate_key_def)
  from v d e r1 r2 show ?thesis by blast
qed

section \<open>Update: the id of the path and the id of the body\<close>

text \<open>
  Claim C5. When the body of an Update request deserializes and its id differs from the
  id of the path, the response is 400 with the message \<open>id in path and body doesn't match\<close>,
  whether or not the body would pass validation and whatever the store would do, and the
  store is as before, with no call issued. The check comes after deserialization: a body
  that does not deserialize is answered with the bind error, whatever the path id.
\<close>

theorem Update_id_mismatch:
  assumes "ID body \<noteq> id'"
  shows "PUT_handler (Inr body) id' fault s =
           (JSON 400 (ErrorString ''id in path and body doesn't match''), s)
         \<and> PUT_handler (Inl err) id' fault s = (JSON 400 (Error (BindError err)), s)"
  using assms by (simp add: PUT_handler_def status_defs)

theorem Update_id_mismatch_witness:
  "ID marker_bad \<noteq> ''a'' \<and> Marker_Validate marker_bad = Some ''empty name''
   \<and> PUT_handler (Inr marker_bad) ''a'' None db_old =
       (JSON 400 (ErrorString ''id in path and body doesn't match''), db_old)"
proof -
  have n: "ID marker_bad \<noteq> ''a''"
    by (simp add: marker_bad_def)
  have v: "Marker_Validate marker_bad = Some ''empty name''"
    by (simp add: validate_defs marker_bad_def)
  from n v Update_id_mismatch [OF n, of None db_old, THEN conjunct1] show ?thesis
    by blast
qed

section \<open>List\<close>

text \<open>
  Claim C6. List on a store with no document answers 200 with the empty array as body,
  a non-nil slice; a 200 response of List never has a nil body, and List never answers
  without a body. When \<open>Find\<close> or \<open>cursor.All\<close> returns an error, List answers 503 with
  that error.
\<close>

theorem List_empty_and_errors:
  "GET_handler None None \<lparr>docs = [], calls = cs\<rparr> =
     (JSON 200 (Markers (Some [])), \<lparr>docs = [], calls = cs @ [CallFind]\<rparr>)
   \<and> fst (GET_handler (Some err) all_fault s) = JSON 503 (Error (StoreError err))
   \<and> fst (GET_handler None (Some err) s) = JSON 503 (Error (StoreError err))
   \<and> fst (GET_handler find_fault all_fault s) \<noteq> JSON status (Markers None)
   \<and> fst (GET_handler find_fault all_fault s) \<noteq> NoContent status"
  by (cases find_fault; cases all_fault)
     (simp_all add: GET_handler_def Find_def cursor_All_def issue_def status_defs)

section \<open>Delete\<close>

text \<open>
  Claim C7. Delete issues exactly one call to the store, the delete by the id of the
  path, whatever the store holds. When the call returns no error the response is 200
  with no body, also when no document has that id (the documents then stay as they are);
  when it returns an error the response is 503 with the error.
\<close>

theorem Delete_unconditional:
  "DELETE_handler id' None s =
     (NoContent 200, issue (CallDeleteOne id') (s\<lparr>docs := delete_first id' (docs s)\<rparr>))
   \<and> DELETE_handler id' (Some err) s =
       (JSON 503 (Error (StoreError err)), issue (CallDeleteOne id') s)
   \<and> calls (snd (DELETE_handler id' fault s)) = calls s @ [CallDeleteOne id']
   \<and> (id' \<notin> set (map ID (docs s)) \<longrightarrow>
        DELETE_handler id' None s = (NoContent 200, issue (CallDeleteOne id') s))"
  by (cases fault)
     (simp_all add: DELETE_handler_def DeleteOne_def issue_def status_defs delete_first_absent)

theorem Delete_unconditional_witness:
  "''zz'' \<notin> set (map ID (docs db_old))
   \<and> DELETE_handler ''zz'' None db_old =
       (NoContent 200, \<lparr>docs = [marker_old], calls = [CallDeleteOne ''zz'']\<rparr>)"
proof -
  have a: "''zz'' \<notin> set (map ID (docs db_old))"
    by (simp add: example_defs)
  from Delete_unconditional [of "''zz''" db_old, THEN conjunct2, THEN conjunct2,
      THEN conjunct2, rule_format, OF a]
  have "DELETE_handler ''zz'' None db_old =
      (NoContent 200, \<lparr>docs = [marker_old], calls = [CallDeleteOne ''zz'']\<rparr>)"
    by (simp add: issue_def db_old_def)
  with a show ?thesis by blast
qed

section \<open>Image ids within a marker\<close>

text \<open>
  Claim C8, as stated, fails: nothing in \<open>Marker.Validate\<close> or \<open>Image.Validate\<close> compares
  the id of one image with that of another. A marker with two images of the id \<open>i\<close> is
  accepted and stored by Create, and accepted and stored by Update.
\<close>

theorem Accepted_marker_repeats_image_id:
  "POST_handler (Inr marker_twins) None db_empty =
     (NoContent 201, \<lparr>docs = [marker_twins], calls = [CallInsertOne marker_twins]\<rparr>)
   \<and> PUT_handler (Inr marker_twins) ''a'' None db_old =
       (NoContent 200, \<lparr>docs = [marker_twins], calls = [CallReplaceOne ''a'' marker_twins]\<rparr>)
   \<and> map Image_ID (range_of (Images marker_twins)) = [''i'', ''i'']
   \<and> \<not> distinct (map Image_ID (range_of (Images marker_twins)))"
  by (simp add: validate_defs example_defs POST_handler_def PUT_handler_def InsertOne_def
      ReplaceOne_def issue_def status_defs Normalize_def)

text \<open>
  Claim C8, amended. Every marker accepted by Create (201) or by Update (200) has images
  that each keep the rule of an image: a non-empty id, a non-empty uri and a width and a
  height above zero. The ids of its images need not differ from one another.
\<close>

theorem Accepted_marker_images_valid:
  assumes "fst (POST_handler (Inr m) fault s) = NoContent 201
           \<or> fst (PUT_handler (Inr m) id' fault s) = NoContent 200"
  shows "\<forall>i \<in> set (range_of (Images m)).
           Image_ID i \<noteq> [] \<and> Image_URI i \<noteq> [] \<and> 0 < Image_Width i \<and> 0 < Image_Height i"
proof -
  from assms have "Marker_Validate m = None"
    using POST_accepted PUT_accepted by blast
  then have "validate_images (range_of (Images m)) = None"
    by (auto simp: Marker_Validate_def split: if_splits option.splits)
  then have "list_all image_ok (range_of (Images m))"
    by (simp add: validate_images_None)
  then show ?thesis
    by (simp add: list_all_iff image_ok_def)
qed

theorem Accepted_marker_images_valid_witness:
  "fst (POST_handler (Inr marker_twins) None db_empty) = NoContent 201
   \<and> Image_ID image_1 \<noteq> [] \<and> Image_URI image_1 \<noteq> []
   \<and> 0 < Image_Width image_1 \<and> 0 < Image_Height image_1
   \<and> Image_ID image_2 \<noteq> [] \<and> Image_URI image_2 \<noteq> []
   \<and> 0 < Image_Width image_2 \<and> 0 < Image_Height image_2"
proof -
  have a: "fst (POST_handler (Inr marker_twins) None db_empty) = NoContent 201"
    by (simp add: validate_defs example_defs POST_handler_def InsertOne_def issue_def
        status_defs Normalize_def)
  have r: "range_of (Images marker_twins) = [image_1, image_2]"
    by (simp add: range_of_def marker_twins_def)
  from Accepted_marker_images_valid [OF disjI1, OF a] r a show ?thesis
    by simp
qed

section \<open>Normalize\<close>

text \<open>
  Claim C9. \<open>Normalize\<close> leaves \<open>ID\<close>, \<open>Name\<close> and \<open>Location\<close> as they are; a non-nil
  \<open>Images\<close> stays as it is and a nil \<open>Images\<close> becomes the empty slice; and \<open>Normalize\<close> is
  idempotent.
\<close>

theorem Normalize_frame_idempotent:
  "ID (Normalize m) = ID m \<and> Name (Normalize m) = Name m
   \<and> Location (Normalize m) = Location m
   \<and> Images (Normalize m) = (case Images m of None \<Rightarrow> Some [] | Some xs \<Rightarrow> Some xs)
   \<and> Normalize (Normalize m) = Normalize m"
  by (cases "Images m") (simp_all add: Normalize_def)

end
